theory Spec2Isabelle
  imports Main
begin

section \<open>Label-Master-3000: serial numbers, card-type indices and the component registry\<close>

text \<open>
  A shallow embedding of the classes \<^verbatim>\<open>GestioneComponenti\<close>, \<^verbatim>\<open>GestoreSerialNumber\<close>
  and of \<^verbatim>\<open>GeneratoreExcel.crea_documento_con_componenti\<close> of
  \<^verbatim>\<open>src/business_logic.py\<close>. Objects are records passed in and returned; a raised
  exception is the \<open>Inl\<close> of a sum; what a method reads from its surroundings (the clock,
  whether a file can be written) is an argument.
\<close>

subsection \<open>Python values: integers as text, truthiness, exceptions\<close>

text \<open>The decimal digit of a number below ten.\<close>

definition cifra :: "nat \<Rightarrow> char" where
  "cifra n = ''0123456789'' ! n"

text \<open>The decimal digits of a natural number, most significant first.\<close>

fun cifre :: "nat \<Rightarrow> string" where
  "cifre n = (if n < 10 then [cifra n] else cifre (n div 10) @ [cifra (n mod 10)])"

declare cifre.simps [simp del]

text \<open>\<^verbatim>\<open>str(i)\<close>, as the f-string field \<^verbatim>\<open>{i}\<close> renders an integer.\<close>

definition str_int :: "int \<Rightarrow> string" where
  "str_int i = (if i < 0 then ''-'' else []) @ cifre (nat \<bar>i\<bar>)"

text \<open>
  The f-string field \<^verbatim>\<open>{i:0wd}\<close>: the sign first, then zeros up to the width \<open>w\<close>, then the
  digits. A number wider than \<open>w\<close> is not cut.
\<close>

definition formato_0d :: "nat \<Rightarrow> int \<Rightarrow> string" where
  "formato_0d w i =
     (let segno = (if i < 0 then ''-'' else []); c = cifre (nat \<bar>i\<bar>)
      in segno @ replicate (w - length segno - length c) (CHR ''0'') @ c)"

text \<open>Truthiness of an optional string: \<^verbatim>\<open>None\<close> and \<^verbatim>\<open>""\<close> are false.\<close>

fun vero :: "string option \<Rightarrow> bool" where
  "vero None = False"
| "vero (Some s) = (s \<noteq> [])"

text \<open>
  The texts of the \<^verbatim>\<open>ValueError\<close>s that \<^verbatim>\<open>crea_documento_con_componenti\<close> raises:
  \<^item> \<open>BolleObbligatorie\<close>: "Bolla Produzione e Bolla Vendita sono campi obbligatori";
  \<^item> \<open>NumeroBusNonPositivo\<close>: "Il numero di bus deve essere maggiore di 0";
  \<^item> \<open>AlmenoUnComponente\<close>: "Almeno un componente e' obbligatorio";
  \<^item> \<open>Code12ncObbligatorio n\<close>: "CODE 12NC e' obbligatorio al primo inserimento del
    componente: n".
\<close>

datatype messaggio =
    BolleObbligatorie
  | NumeroBusNonPositivo
  | AlmenoUnComponente
  | Code12ncObbligatorio string

datatype error = ValueError messaggio | IndexError | ZeroDivisionError

text \<open>
  \<^verbatim>\<open>xs[i]\<close> on a list: a negative index counts from the end, an index out of range
  raises \<^verbatim>\<open>IndexError\<close>.
\<close>

definition py_indice :: "'a list \<Rightarrow> int \<Rightarrow> error + 'a" where
  "py_indice xs i =
     (if 0 \<le> i \<and> i < int (length xs) then Inr (xs ! nat i)
      else if i < 0 \<and> - int (length xs) \<le> i then Inr (xs ! nat (int (length xs) + i))
      else Inl IndexError)"

text \<open>\<^verbatim>\<open>a % b\<close> on integers: the result has the sign of \<open>b\<close>; \<open>b = 0\<close> raises.\<close>

definition py_mod :: "int \<Rightarrow> int \<Rightarrow> error + int" where
  "py_mod a b = (if b = 0 then Inl ZeroDivisionError else Inr (a mod b))"

subsection \<open>The surroundings: clock and file system\<close>

text \<open>
  What \<^verbatim>\<open>datetime.now()\<close> returned: the two attributes the code reads, and the text of
  \<^verbatim>\<open>isoformat()\<close>.
\<close>

record datetime =
  year :: int
  month :: int
  isoformat :: string

text \<open>
  A JSON file on disk, and what happens to it in
  \<^verbatim>\<open>with open(f, 'w') as f: json.dump(v, f)\<close>: the dump is written, or \<^verbatim>\<open>open\<close> raises and
  the file is as before, or \<^verbatim>\<open>json.dump\<close> raises after \<^verbatim>\<open>open\<close> has emptied the file.
\<close>

datatype 'a archivio = Assente | Json 'a | Troncato

datatype esito_io = ScritturaOk | ErroreOpen | ErroreDump

definition scrivi :: "esito_io \<Rightarrow> 'a \<Rightarrow> 'a archivio \<Rightarrow> 'a archivio" where
  "scrivi io v f = (case io of ScritturaOk \<Rightarrow> Json v | ErroreOpen \<Rightarrow> f | ErroreDump \<Rightarrow> Troncato)"

subsection \<open>GestoreSerialNumber\<close>

text \<open>One value of the dictionary \<^verbatim>\<open>self.stato\<close>.\<close>

record voce_sn =
  ultimo_sn :: int
  data_ultimo_utilizzo :: string
  sn_code_12nc :: "string option"

record gestore_serial_number =
  stato :: "string \<rightharpoonup> voce_sn"
  file_stato :: "(string \<rightharpoonup> voce_sn) archivio"

text \<open>
  \<^verbatim>\<open>_salva_stato\<close>: the write is inside \<^verbatim>\<open>try ... except Exception\<close>, whose handler prints
  the error; the method returns normally in every case.
\<close>

definition salva_stato :: "esito_io \<Rightarrow> gestore_serial_number \<Rightarrow> gestore_serial_number" where
  "salva_stato io g = g\<lparr>file_stato := scrivi io (stato g) (file_stato g)\<rparr>"

definition lettere :: string where
  "lettere = ''ABCDEFGHIJKL''"

text \<open>\<^verbatim>\<open>_get_mese_lettera\<close>: \<^verbatim>\<open>lettere[mese - 1]\<close>.\<close>

definition get_mese_lettera :: "int \<Rightarrow> error + char" where
  "get_mese_lettera mese = py_indice lettere (mese - 1)"

text \<open>The f-string \<^verbatim>\<open>f"{mese_lettera}{anno:02d} {numero_incrementale:05d}"\<close>.\<close>

definition testo_sn :: "char \<Rightarrow> int \<Rightarrow> int \<Rightarrow> string" where
  "testo_sn mese_lettera anno numero_incrementale =
     mese_lettera # formato_0d 2 anno @ '' '' @ formato_0d 5 numero_incrementale"

text \<open>
  \<^verbatim>\<open>genera_serial_number\<close>; \<open>ora\<close> is what \<^verbatim>\<open>datetime.now()\<close> returns in this call and
  \<open>io\<close> what happens to the write of the state file.
\<close>

definition genera_serial_number ::
  "datetime \<Rightarrow> esito_io \<Rightarrow> string \<Rightarrow> int option \<Rightarrow> string option
     \<Rightarrow> gestore_serial_number \<Rightarrow> (error + string) \<times> gestore_serial_number" where
  "genera_serial_number ora io descrizione sn_iniziale code_12nc g =
     (let mese = month ora; anno = year ora mod 100
      in case get_mese_lettera mese of
           Inl e \<Rightarrow> (Inl e, g)
         | Inr mese_lettera \<Rightarrow>
             (let numero_incrementale =
                    (case sn_iniziale of
                       Some v \<Rightarrow> v
                     | None \<Rightarrow>
                         (case stato g descrizione of
                            Some voce \<Rightarrow> ultimo_sn voce + 1
                          | None \<Rightarrow> 0));
                  sn = testo_sn mese_lettera anno numero_incrementale;
                  g' = g\<lparr>stato := (stato g)(descrizione \<mapsto>
                         \<lparr>ultimo_sn = numero_incrementale,
                          data_ultimo_utilizzo = isoformat ora,
                          sn_code_12nc = code_12nc\<rparr>)\<rparr>
              in (Inr sn, salva_stato io g')))"

text \<open>\<^verbatim>\<open>get_ultimo_sn\<close>: the last number issued for a description, \<open>-1\<close> when there is none.\<close>

definition get_ultimo_sn :: "string \<Rightarrow> gestore_serial_number \<Rightarrow> int" where
  "get_ultimo_sn descrizione g =
     (case stato g descrizione of Some voce \<Rightarrow> ultimo_sn voce | None \<Rightarrow> - 1)"

subsection \<open>GestioneComponenti\<close>

text \<open>
  The value of \<^verbatim>\<open>inizio_indicizzazione_prefisso\<close>: \<^verbatim>\<open>None\<close>, an integer or a list of
  integers.
\<close>

datatype indice = Nessuno | Intero int | Lista "int list"

text \<open>One dictionary of the list \<^verbatim>\<open>self.componenti\<close>, with the six keys that
  \<^verbatim>\<open>aggiungi_componente\<close> and \<^verbatim>\<open>modifica_componente\<close> write.\<close>

record componente =
  nome :: string
  code_12nc :: string
  sn_iniziale :: "int option"
  prefisso_tipo_scheda :: "string option"
  indicizzazione :: bool
  inizio_indicizzazione_prefisso :: indice

record gestione_componenti =
  componenti :: "componente list"
  file_componenti :: "componente list archivio"

text \<open>\<^verbatim>\<open>_salva_componenti\<close>: as \<^verbatim>\<open>_salva_stato\<close>, a failed write is printed and dropped.\<close>

definition salva_componenti :: "esito_io \<Rightarrow> gestione_componenti \<Rightarrow> gestione_componenti" where
  "salva_componenti io gc = gc\<lparr>file_componenti := scrivi io (componenti gc) (file_componenti gc)\<rparr>"

text \<open>\<^verbatim>\<open>cerca_componente_per_nome\<close>: the first entry with the name.\<close>

fun cerca :: "string \<Rightarrow> componente list \<Rightarrow> componente option" where
  "cerca n [] = None"
| "cerca n (c # cs) = (if nome c = n then Some c else cerca n cs)"

definition cerca_componente_per_nome :: "string \<Rightarrow> gestione_componenti \<Rightarrow> componente option" where
  "cerca_componente_per_nome n gc = cerca n (componenti gc)"

text \<open>
  \<^verbatim>\<open>aggiungi_componente\<close>. The dictionary that \<^verbatim>\<open>cerca_componente_per_nome\<close> returns is
  never empty, so the test is whether an entry was found.
\<close>

definition aggiungi_componente ::
  "esito_io \<Rightarrow> string \<Rightarrow> string \<Rightarrow> int option \<Rightarrow> string option \<Rightarrow> bool \<Rightarrow> indice
     \<Rightarrow> gestione_componenti \<Rightarrow> bool \<times> gestione_componenti" where
  "aggiungi_componente io n code sn prefisso indic inizio gc =
     (if cerca_componente_per_nome n gc \<noteq> None then (False, gc)
      else
        (let nuovo = \<lparr>nome = n, code_12nc = code, sn_iniziale = sn,
                     prefisso_tipo_scheda = prefisso, indicizzazione = indic,
                     inizio_indicizzazione_prefisso = inizio\<rparr>
         in (True, salva_componenti io (gc\<lparr>componenti := componenti gc @ [nuovo]\<rparr>))))"

text \<open>
  The loop of \<^verbatim>\<open>modifica_componente\<close>: the first entry named \<open>nome_originale\<close> is replaced
  by the new dictionary; \<open>None\<close> when the loop ends without a match.
\<close>

fun sostituisci :: "string \<Rightarrow> componente \<Rightarrow> componente list \<Rightarrow> componente list option" where
  "sostituisci nome_originale nuovo [] = None"
| "sostituisci nome_originale nuovo (c # cs) =
     (if nome c = nome_originale then Some (nuovo # cs)
      else map_option ((#) c) (sostituisci nome_originale nuovo cs))"

definition modifica_componente ::
  "esito_io \<Rightarrow> string \<Rightarrow> string \<Rightarrow> string \<Rightarrow> int option \<Rightarrow> string option \<Rightarrow> bool \<Rightarrow> indice
     \<Rightarrow> gestione_componenti \<Rightarrow> bool \<times> gestione_componenti" where
  "modifica_componente io nome_originale nuovo_nome code sn prefisso indic inizio gc =
     (case sostituisci nome_originale
             \<lparr>nome = nuovo_nome, code_12nc = code, sn_iniziale = sn,
              prefisso_tipo_scheda = prefisso, indicizzazione = indic,
              inizio_indicizzazione_prefisso = inizio\<rparr> (componenti gc) of
        Some cs \<Rightarrow> (True, salva_componenti io (gc\<lparr>componenti := cs\<rparr>))
      | None \<Rightarrow> (False, gc))"

text \<open>\<^verbatim>\<open>elimina_componente\<close>: the list is replaced by the filtered one in both cases.\<close>

definition elimina_componente ::
  "esito_io \<Rightarrow> string \<Rightarrow> gestione_componenti \<Rightarrow> bool \<times> gestione_componenti" where
  "elimina_componente io n gc =
     (let lunghezza_iniziale = length (componenti gc);
          gc' = gc\<lparr>componenti := filter (\<lambda>c. nome c \<noteq> n) (componenti gc)\<rparr>
      in if length (componenti gc') < lunghezza_iniziale then (True, salva_componenti io gc')
         else (False, gc'))"

text \<open>The loop of \<^verbatim>\<open>aggiorna_sn_iniziale\<close>: the first entry with the name gets the value.\<close>

fun aggiorna :: "string \<Rightarrow> int \<Rightarrow> componente list \<Rightarrow> componente list option" where
  "aggiorna n nuovo_sn [] = None"
| "aggiorna n nuovo_sn (c # cs) =
     (if nome c = n then Some (c\<lparr>sn_iniziale := Some nuovo_sn\<rparr> # cs)
      else map_option ((#) c) (aggiorna n nuovo_sn cs))"

definition aggiorna_sn_iniziale ::
  "esito_io \<Rightarrow> string \<Rightarrow> int \<Rightarrow> gestione_componenti \<Rightarrow> bool \<times> gestione_componenti" where
  "aggiorna_sn_iniziale io n nuovo_sn gc =
     (case aggiorna n nuovo_sn (componenti gc) of
        Some cs \<Rightarrow> (True, salva_componenti io (gc\<lparr>componenti := cs\<rparr>))
      | None \<Rightarrow> (False, gc))"

definition ottieni_nomi_componenti :: "gestione_componenti \<Rightarrow> string list" where
  "ottieni_nomi_componenti gc = map nome (componenti gc)"

subsection \<open>GeneratoreExcel.crea_documento_con_componenti\<close>

text \<open>
  One dictionary of the argument \<^verbatim>\<open>componenti\<close>. The code reads every key with
  \<^verbatim>\<open>get\<close>, so a missing key is its default: \<^verbatim>\<open>''\<close> for the name, \<open>1\<close> for the quantity,
  \<^verbatim>\<open>True\<close> for \<^verbatim>\<open>indicizzazione\<close> and \<^verbatim>\<open>None\<close> for the others.
\<close>

record richiesta =
  r_nome :: string
  r_quantita :: int
  r_sn_iniziale :: "int option"
  r_prefisso_tipo_scheda :: "string option"
  r_code_12nc :: "string option"
  r_indicizzazione :: bool
  r_inizio_indicizzazione_prefisso :: indice

text \<open>One dictionary of the list \<^verbatim>\<open>componenti_sn_calcolati\<close>.\<close>

record comp_info =
  ci_nome :: string
  ci_quantita :: int
  ci_prossimo_sn :: int
  ci_prefisso_tipo_scheda :: "string option"
  ci_code_12nc :: "string option"
  ci_indicizzazione :: bool
  ci_inizio_indicizzazione_prefisso :: indice

text \<open>
  One row of the sheet, columns 1 to 9 in order. The header row, the column widths and
  the cell formats are left out, and so is the saving of the workbook under
  \<^verbatim>\<open>nome_file\<close> at the end.
\<close>

record riga =
  col_fornitore :: string
  col_bolla_produzione :: string
  col_bolla_vendita :: string
  col_descrizione :: string
  col_code_12nc :: "string option"
  col_sn :: string
  col_bus :: string
  col_tipo_scheda :: string
  col_sn_fornitore :: string

record generatore_excel =
  gestore_sn :: gestore_serial_number
  gestione_componenti :: "gestione_componenti option"

text \<open>
  The surroundings of one run: what \<^verbatim>\<open>datetime.now()\<close> returns in the \<open>k\<close>-th call of
  \<^verbatim>\<open>genera_serial_number\<close> of the run and what happens to that call's write, and what
  happens to the write of the registry made for the \<open>i\<close>-th entry of \<^verbatim>\<open>componenti\<close>.
\<close>

record ambiente =
  orologio :: "nat \<Rightarrow> datetime"
  disco_sn :: "nat \<Rightarrow> esito_io"
  disco_componenti :: "nat \<Rightarrow> esito_io"

text \<open>The body of the first loop: part code and first number of one component.\<close>

definition calcola_sn :: "(string \<rightharpoonup> voce_sn) \<Rightarrow> richiesta \<Rightarrow> error + comp_info" where
  "calcola_sn st componente =
     (let nome_componente = r_nome componente;
          sn_iniziale = r_sn_iniziale componente;
          code = r_code_12nc componente;
          prossimo_sn =
            (case sn_iniziale of
               Some v \<Rightarrow> v
             | None \<Rightarrow> (case st nome_componente of Some voce \<Rightarrow> ultimo_sn voce + 1 | None \<Rightarrow> 0));
          info = (\<lambda>code_12nc_finale.
            \<lparr>ci_nome = nome_componente,
             ci_quantita = r_quantita componente,
             ci_prossimo_sn = prossimo_sn,
             ci_prefisso_tipo_scheda = r_prefisso_tipo_scheda componente,
             ci_code_12nc = code_12nc_finale,
             ci_indicizzazione = r_indicizzazione componente,
             ci_inizio_indicizzazione_prefisso = r_inizio_indicizzazione_prefisso componente\<rparr>)
      in case st nome_componente of
           Some voce \<Rightarrow> Inr (info (if vero code then code else sn_code_12nc voce))
         | None \<Rightarrow>
             if \<not> vero code then Inl (ValueError (Code12ncObbligatorio nome_componente))
             else Inr (info code))"

fun componenti_sn_calcolati ::
  "(string \<rightharpoonup> voce_sn) \<Rightarrow> richiesta list \<Rightarrow> error + comp_info list" where
  "componenti_sn_calcolati st [] = Inr []"
| "componenti_sn_calcolati st (componente # resto) =
     (case calcola_sn st componente of
        Inl e \<Rightarrow> Inl e
      | Inr info \<Rightarrow>
          (case componenti_sn_calcolati st resto of
             Inl e \<Rightarrow> Inl e
           | Inr infos \<Rightarrow> Inr (info # infos)))"

text \<open>
  The number appended to the prefix; \<open>elemento_idx\<close> is the loop variable of
  \<^verbatim>\<open>for elemento_idx in range(quantita)\<close>.
\<close>

definition numero_indic :: "indice \<Rightarrow> int \<Rightarrow> error + int" where
  "numero_indic inizio_indic elemento_idx =
     (case inizio_indic of
        Lista l \<Rightarrow>
          if length l > 0
          then (case py_mod elemento_idx (int (length l)) of
                  Inl e \<Rightarrow> Inl e
                | Inr j \<Rightarrow> py_indice l j)
          else Inr (elemento_idx + 1)
      | Intero i \<Rightarrow> Inr (i + elemento_idx)
      | Nessuno \<Rightarrow> Inr (elemento_idx + 1))"

text \<open>The text of the cell "Tipo Scheda" of one row.\<close>

definition tipo_scheda :: "comp_info \<Rightarrow> int \<Rightarrow> error + string" where
  "tipo_scheda info elemento_idx =
     (case ci_prefisso_tipo_scheda info of
        None \<Rightarrow> Inr []
      | Some prefisso \<Rightarrow>
          if prefisso = [] then Inr []
          else if ci_indicizzazione info
          then (case numero_indic (ci_inizio_indicizzazione_prefisso info) elemento_idx of
                  Inl e \<Rightarrow> Inl e
                | Inr n \<Rightarrow> Inr (prefisso @ str_int n))
          else Inr prefisso)"

text \<open>
  What the three nested loops change: the serial-number manager, the dictionary
  \<^verbatim>\<open>primo_utilizzo\<close>, the rows written so far and the number of calls of
  \<^verbatim>\<open>genera_serial_number\<close> made so far. (The dictionary \<^verbatim>\<open>elemento_globale\<close> is never
  read.)
\<close>

record ciclo =
  gsn :: gestore_serial_number
  primo_utilizzo :: "string \<rightharpoonup> bool"
  righe :: "riga list"
  chiamate :: nat

text \<open>The three arguments that every row repeats.\<close>

record testata =
  fornitore :: string
  bolla_produzione :: string
  bolla_vendita :: string

text \<open>
  The innermost loop, over the values of \<^verbatim>\<open>range(quantita)\<close> still to come. An exception
  ends the loops with the state reached.
\<close>

fun per_elemento ::
  "ambiente \<Rightarrow> testata \<Rightarrow> int \<Rightarrow> comp_info \<Rightarrow> nat list \<Rightarrow> ciclo \<Rightarrow> error option \<times> ciclo" where
  "per_elemento amb t bus_number info [] s = (None, s)"
| "per_elemento amb t bus_number info (elemento_idx # resto) s =
     (let nome_componente = ci_nome info;
          k = chiamate s;
          primo = (primo_utilizzo s nome_componente = Some True);
          esito =
            (if primo
             then genera_serial_number (orologio amb k) (disco_sn amb k) nome_componente
                    (Some (ci_prossimo_sn info)) (ci_code_12nc info) (gsn s)
             else genera_serial_number (orologio amb k) (disco_sn amb k) nome_componente
                    None None (gsn s))
      in case fst esito of
           Inl e \<Rightarrow> (Some e, s\<lparr>gsn := snd esito, chiamate := Suc k\<rparr>)
         | Inr part_number \<Rightarrow>
             (let s1 = s\<lparr>gsn := snd esito,
                         primo_utilizzo :=
                           (if primo then (primo_utilizzo s)(nome_componente \<mapsto> False)
                            else primo_utilizzo s),
                         chiamate := Suc k\<rparr>
              in case tipo_scheda info (int elemento_idx) of
                   Inl e \<Rightarrow> (Some e, s1)
                 | Inr testo \<Rightarrow>
                     per_elemento amb t bus_number info resto
                       (s1\<lparr>righe := righe s @
                          [\<lparr>col_fornitore = fornitore t,
                            col_bolla_produzione = bolla_produzione t,
                            col_bolla_vendita = bolla_vendita t,
                            col_descrizione = nome_componente,
                            col_code_12nc = ci_code_12nc info,
                            col_sn = part_number,
                            col_bus = ''BUS '' @ str_int bus_number,
                            col_tipo_scheda = testo,
                            col_sn_fornitore = []\<rparr>]\<rparr>)))"

text \<open>The loop over \<^verbatim>\<open>componenti_sn_calcolati\<close>, inside one bus.\<close>

fun per_componente ::
  "ambiente \<Rightarrow> testata \<Rightarrow> int \<Rightarrow> comp_info list \<Rightarrow> ciclo \<Rightarrow> error option \<times> ciclo" where
  "per_componente amb t bus_number [] s = (None, s)"
| "per_componente amb t bus_number (info # resto) s =
     (case per_elemento amb t bus_number info [0..<nat (ci_quantita info)] s of
        (Some e, s') \<Rightarrow> (Some e, s')
      | (None, s') \<Rightarrow> per_componente amb t bus_number resto s')"

text \<open>The outer loop, over the values of \<^verbatim>\<open>range(numero_bus)\<close> still to come.\<close>

fun per_bus ::
  "ambiente \<Rightarrow> testata \<Rightarrow> int \<Rightarrow> comp_info list \<Rightarrow> nat list \<Rightarrow> ciclo \<Rightarrow> error option \<times> ciclo" where
  "per_bus amb t bus_iniziale infos [] s = (None, s)"
| "per_bus amb t bus_iniziale infos (bus_idx # resto) s =
     (case per_componente amb t (bus_iniziale + int bus_idx) infos s of
        (Some e, s') \<Rightarrow> (Some e, s')
      | (None, s') \<Rightarrow> per_bus amb t bus_iniziale infos resto s')"

text \<open>
  The body of the last loop, for one entry of \<^verbatim>\<open>componenti\<close>: when the name has a state
  and is in the registry, the registry entry is rewritten by \<^verbatim>\<open>modifica_componente\<close>.
\<close>

definition sincronizza_uno ::
  "esito_io \<Rightarrow> (string \<rightharpoonup> voce_sn) \<Rightarrow> richiesta \<Rightarrow> gestione_componenti \<Rightarrow> gestione_componenti" where
  "sincronizza_uno io st componente gc =
     (let nome_componente = r_nome componente
      in case st nome_componente of
           None \<Rightarrow> gc
         | Some voce \<Rightarrow>
             (case cerca_componente_per_nome nome_componente gc of
                None \<Rightarrow> gc
              | Some comp_db \<Rightarrow>
                  snd (modifica_componente io nome_componente (nome comp_db) (code_12nc comp_db)
                         (Some (ultimo_sn voce + 1)) (prefisso_tipo_scheda comp_db)
                         (indicizzazione comp_db)
                         (r_inizio_indicizzazione_prefisso componente) gc)))"

fun sincronizza ::
  "(nat \<Rightarrow> esito_io) \<Rightarrow> (string \<rightharpoonup> voce_sn) \<Rightarrow> richiesta list \<Rightarrow> gestione_componenti
     \<Rightarrow> gestione_componenti" where
  "sincronizza disco st [] gc = gc"
| "sincronizza disco st (componente # resto) gc =
     sincronizza (\<lambda>i. disco (Suc i)) st resto (sincronizza_uno (disco 0) st componente gc)"

text \<open>
  \<^verbatim>\<open>crea_documento_con_componenti\<close>: the three checks of the arguments, the first loop,
  the rows, the synchronisation of the registry. The result is the list of rows written,
  or the exception, and the generator with its two managers as the call leaves them.
\<close>

definition crea_documento_con_componenti ::
  "ambiente \<Rightarrow> string \<Rightarrow> string \<Rightarrow> int \<Rightarrow> richiesta list \<Rightarrow> int \<Rightarrow> string \<Rightarrow> generatore_excel
     \<Rightarrow> (error + riga list) \<times> generatore_excel" where
  "crea_documento_con_componenti amb bolla_p bolla_v numero_bus comps bus_iniziale forn gen =
     (if bolla_p = [] \<or> bolla_v = [] then (Inl (ValueError BolleObbligatorie), gen)
      else if numero_bus \<le> 0 then (Inl (ValueError NumeroBusNonPositivo), gen)
      else if comps = [] then (Inl (ValueError AlmenoUnComponente), gen)
      else
        case componenti_sn_calcolati (stato (gestore_sn gen)) comps of
          Inl e \<Rightarrow> (Inl e, gen)
        | Inr infos \<Rightarrow>
            (case per_bus amb
                    \<lparr>fornitore = forn, bolla_produzione = bolla_p, bolla_vendita = bolla_v\<rparr>
                    bus_iniziale infos [0..<nat numero_bus]
                    \<lparr>gsn = gestore_sn gen,
                     primo_utilizzo = map_of (map (\<lambda>info. (ci_nome info, True)) infos),
                     righe = [], chiamate = 0\<rparr> of
               (Some e, s) \<Rightarrow> (Inl e, gen\<lparr>gestore_sn := gsn s\<rparr>)
             | (None, s) \<Rightarrow>
                 (Inr (righe s),
                  gen\<lparr>gestore_sn := gsn s,
                      gestione_componenti :=
                        map_option (sincronizza (disco_componenti amb) (stato (gsn s)) comps)
                          (gestione_componenti gen)\<rparr>)))"

subsection \<open>Reading a number back from its text\<close>




text \<open>
  The value that \<^verbatim>\<open>genera_serial_number\<close> gives to \<^verbatim>\<open>numero_incrementale\<close>, named so
  that lemmas about a call can speak of it.
\<close>

definition numero_emesso :: "string \<Rightarrow> int option \<Rightarrow> gestore_serial_number \<Rightarrow> int" where
  "numero_emesso d richiesto g =
     (case richiesto of
        Some v \<Rightarrow> v
      | None \<Rightarrow> (case stato g d of Some voce \<Rightarrow> ultimo_sn voce + 1 | None \<Rightarrow> 0))"

subsection \<open>Vocabulary of the properties of a run\<close>

text \<open>Every reading of the clock during the run has a month of the calendar.\<close>

definition orologio_valido :: "ambiente \<Rightarrow> bool" where
  "orologio_valido amb = (\<forall>k. 1 \<le> month (orologio amb k) \<and> month (orologio amb k) \<le> 12)"

text \<open>
  The cells "Bus" and "Tipo Scheda" of a row, and what they are expected to be for the
  unit at position \<open>p\<close> of a component on a bus.
\<close>

definition bus_e_tipo :: "riga \<Rightarrow> string \<times> (error + string)" where
  "bus_e_tipo r = (col_bus r, Inr (col_tipo_scheda r))"

definition bus_e_tipo_atteso :: "int \<Rightarrow> comp_info \<Rightarrow> nat \<Rightarrow> string \<times> (error + string)" where
  "bus_e_tipo_atteso bus_number info p = (''BUS '' @ str_int bus_number, tipo_scheda info (int p))"

subsection \<open>Example data: the scenario of the specification\<close>

text \<open>
  A date in June 2025, surroundings in which every write succeeds, the request for one
  "SENSOR" per bus, a registry that holds "SENSOR", and a generator that has never issued
  a number.
\<close>

definition giugno_2025 :: datetime where
  "giugno_2025 = \<lparr>year = 2025, month = 6, isoformat = ''2025-06-03T09:30:00''\<rparr>"

definition amb_giugno :: ambiente where
  "amb_giugno = \<lparr>orologio = (\<lambda>k. giugno_2025), disco_sn = (\<lambda>k. ScritturaOk),
                  disco_componenti = (\<lambda>i. ScritturaOk)\<rparr>"

definition sensor :: richiesta where
  "sensor = \<lparr>r_nome = ''SENSOR'', r_quantita = 1, r_sn_iniziale = None,
              r_prefisso_tipo_scheda = Some ''SU'', r_code_12nc = Some ''ABC123'',
              r_indicizzazione = True, r_inizio_indicizzazione_prefisso = Nessuno\<rparr>"

definition registro_sensor :: gestione_componenti where
  "registro_sensor =
     \<lparr>componenti = [\<lparr>nome = ''SENSOR'', code_12nc = ''ABC123'', sn_iniziale = None,
                      prefisso_tipo_scheda = Some ''SU'', indicizzazione = True,
                      inizio_indicizzazione_prefisso = Nessuno\<rparr>],
      file_componenti = Assente\<rparr>"

definition gen_nuovo :: generatore_excel where
  "gen_nuovo = \<lparr>gestore_sn = \<lparr>stato = Map.empty, file_stato = Assente\<rparr>,
                 gestione_componenti = Some registro_sensor\<rparr>"

text \<open>What the first loop computes for the request \<open>sensor\<close> when the name has no state.\<close>

definition info_sensor :: comp_info where
  "info_sensor = \<lparr>ci_nome = ''SENSOR'', ci_quantita = 1, ci_prossimo_sn = 0,
                   ci_prefisso_tipo_scheda = Some ''SU'', ci_code_12nc = Some ''ABC123'',
                   ci_indicizzazione = True, ci_inizio_indicizzazione_prefisso = Nessuno\<rparr>"

text \<open>
  A serial-number manager that has issued number 41 for "SENSOR" with part code "ABC123",
  and a registry with the two components "A" and "B".
\<close>

definition gsn_sensor :: gestore_serial_number where
  "gsn_sensor = \<lparr>stato = [''SENSOR'' \<mapsto> \<lparr>ultimo_sn = 41,
                     data_ultimo_utilizzo = ''2025-05-30T08:00:00'',
                     sn_code_12nc = Some ''ABC123''\<rparr>],
                 file_stato = Json [''SENSOR'' \<mapsto> \<lparr>ultimo_sn = 41,
                     data_ultimo_utilizzo = ''2025-05-30T08:00:00'',
                     sn_code_12nc = Some ''ABC123''\<rparr>]\<rparr>"

definition registro_ab :: gestione_componenti where
  "registro_ab =
     \<lparr>componenti = [\<lparr>nome = ''A'', code_12nc = ''111'', sn_iniziale = None,
                      prefisso_tipo_scheda = None, indicizzazione = True,
                      inizio_indicizzazione_prefisso = Nessuno\<rparr>,
                    \<lparr>nome = ''B'', code_12nc = ''222'', sn_iniziale = None,
                      prefisso_tipo_scheda = None, indicizzazione = True,
                      inizio_indicizzazione_prefisso = Nessuno\<rparr>],
      file_componenti = Assente\<rparr>"

section \<open>Properties\<close>

subsection \<open>Decimal text\<close>










subsection \<open>One call of genera_serial_number\<close>

lemma get_mese_lettera_valido:
  "1 \<le> m \<Longrightarrow> m \<le> 12 \<Longrightarrow> get_mese_lettera m = Inr (lettere ! nat (m - 1))"
  by (simp add: get_mese_lettera_def py_indice_def lettere_def Let_def)

text \<open>With a month of the calendar the call returns, and this is what it returns.\<close>

lemma genera_valido:
  assumes "1 \<le> month ora" "month ora \<le> 12"
  shows "genera_serial_number ora io d ov code g =
    (Inr (testo_sn (lettere ! nat (month ora - 1)) (year ora mod 100) (numero_emesso d ov g)),
     \<lparr>stato = (stato g)(d \<mapsto> \<lparr>ultimo_sn = numero_emesso d ov g,
                                data_ultimo_utilizzo = isoformat ora, sn_code_12nc = code\<rparr>),
      file_stato = scrivi io ((stato g)(d \<mapsto> \<lparr>ultimo_sn = numero_emesso d ov g,
                                data_ultimo_utilizzo = isoformat ora, sn_code_12nc = code\<rparr>))
                     (file_stato g)\<rparr>)"
  using assms
  by (simp add: genera_serial_number_def get_mese_lettera_valido numero_emesso_def Let_def
      salva_stato_def)

text \<open>
  C1. Whatever the description \<open>d\<close>, a call of \<^verbatim>\<open>genera_serial_number\<close> (made at a date
  whose month is 1 to 12, as every date is) returns a serial number whose counter \<open>k\<close> is
  chosen by priority: the explicit \<^verbatim>\<open>sn_iniziale\<close> when one is given, whatever the state
  held for \<open>d\<close>; otherwise \<^verbatim>\<open>ultimo_sn + 1\<close> when \<open>d\<close> has a state; otherwise \<open>0\<close>. In every
  case \<^verbatim>\<open>ultimo_sn\<close> of \<open>d\<close> is \<open>k\<close> after the call.
\<close>

theorem allocate_counter_priority:
  assumes "1 \<le> month ora" "month ora \<le> 12"
  shows "\<exists>lettera k g'.
     genera_serial_number ora io d ov code g = (Inr (testo_sn lettera (year ora mod 100) k), g')
     \<and> get_ultimo_sn d g' = k
     \<and> (\<forall>v. ov = Some v \<longrightarrow> k = v)
     \<and> (\<forall>voce. ov = None \<and> stato g d = Some voce \<longrightarrow> k = ultimo_sn voce + 1)
     \<and> (ov = None \<and> stato g d = None \<longrightarrow> k = 0)"
  using assms
  by (auto simp: genera_valido get_ultimo_sn_def numero_emesso_def)

theorem allocate_counter_priority_witness:
  "(1::int) \<le> month \<lparr>year = 2025, month = 6, isoformat = ''2025-06-03T09:30:00''\<rparr>
   \<and> month \<lparr>year = 2025, month = 6, isoformat = ''2025-06-03T09:30:00''\<rparr> \<le> 12
   \<and> (\<exists>lettera k g'.
        genera_serial_number \<lparr>year = 2025, month = 6, isoformat = ''2025-06-03T09:30:00''\<rparr>
          ScritturaOk ''SENSOR'' None None
          \<lparr>stato = [''SENSOR'' \<mapsto> \<lparr>ultimo_sn = 41,
                       data_ultimo_utilizzo = ''2025-05-30T08:00:00'',
                       sn_code_12nc = Some ''ABC123''\<rparr>],
           file_stato = Assente\<rparr>
          = (Inr (testo_sn lettera 25 k), g')
        \<and> get_ultimo_sn ''SENSOR'' g' = k \<and> k = 42)
   \<and> (\<exists>lettera k g'.
        genera_serial_number \<lparr>year = 2025, month = 6, isoformat = ''2025-06-03T09:30:00''\<rparr>
          ScritturaOk ''SENSOR'' (Some 7) None
          \<lparr>stato = [''SENSOR'' \<mapsto> \<lparr>ultimo_sn = 41,
                       data_ultimo_utilizzo = ''2025-05-30T08:00:00'',
                       sn_code_12nc = Some ''ABC123''\<rparr>],
           file_stato = Assente\<rparr>
          = (Inr (testo_sn lettera 25 k), g')
        \<and> get_ultimo_sn ''SENSOR'' g' = k \<and> k = 7)
   \<and> (\<exists>lettera k g'.
        genera_serial_number \<lparr>year = 2025, month = 6, isoformat = ''2025-06-03T09:30:00''\<rparr>
          ScritturaOk ''SENSOR'' None None \<lparr>stato = Map.empty, file_stato = Assente\<rparr>
          = (Inr (testo_sn lettera 25 k), g')
        \<and> get_ultimo_sn ''SENSOR'' g' = k \<and> k = 0)"
  using allocate_counter_priority
          [of "\<lparr>year = 2025, month = 6, isoformat = ''2025-06-03T09:30:00''\<rparr>"
              ScritturaOk "''SENSOR''" None None
              "\<lparr>stato = [''SENSOR'' \<mapsto> \<lparr>ultimo_sn = 41,
                       data_ultimo_utilizzo = ''2025-05-30T08:00:00'',
                       sn_code_12nc = Some ''ABC123''\<rparr>],
           file_stato = Assente\<rparr>"]
        allocate_counter_priority
          [of "\<lparr>year = 2025, month = 6, isoformat = ''2025-06-03T09:30:00''\<rparr>"
              ScritturaOk "''SENSOR''" "Some 7" None
              "\<lparr>stato = [''SENSOR'' \<mapsto> \<lparr>ultimo_sn = 41,
                       data_ultimo_utilizzo = ''2025-05-30T08:00:00'',
                       sn_code_12nc = Some ''ABC123''\<rparr>],
           file_stato = Assente\<rparr>"]
        allocate_counter_priority
          [of "\<lparr>year = 2025, month = 6, isoformat = ''2025-06-03T09:30:00''\<rparr>"
              ScritturaOk "''SENSOR''" None None "\<lparr>stato = Map.empty, file_stato = Assente\<rparr>"]
  by simp




subsection \<open>The number after the prefix\<close>

lemma numero_indic_lista:
  assumes "l \<noteq> []"
  shows "numero_indic (Lista l) (int p) = Inr (l ! (p mod length l))"
proof -
  from assms have n: "0 < length l" by simp
  have m: "int p mod int (length l) = int (p mod length l)" by (simp add: zmod_int)
  have "p mod length l < length l" using n by simp
  then show ?thesis using n
    by (simp add: numero_indic_def py_mod_def py_indice_def m del: of_nat_mod)
qed

lemma numero_indic_totale: "\<exists>n. numero_indic pol (int p) = Inr n"
proof (cases pol)
  case (Lista l)
  then show ?thesis
    by (cases "l = []") (simp_all add: numero_indic_lista, simp add: numero_indic_def)
qed (simp_all add: numero_indic_def)

lemma tipo_scheda_totale: "\<exists>testo. tipo_scheda info (int p) = Inr testo"
  using numero_indic_totale [of "ci_inizio_indicizzazione_prefisso info" p]
  by (auto simp: tipo_scheda_def split: option.splits)

subsection \<open>The three loops\<close>

text \<open>
  With a clock that reads months of the calendar the loops run to their end, and each
  row carries the bus of the outer loop and the text computed from the position in the
  innermost loop.
\<close>

lemma per_elemento_passo:
  assumes m: "1 \<le> month (orologio amb (chiamate s))" "month (orologio amb (chiamate s)) \<le> 12"
  shows "\<exists>s2. per_elemento amb t b info (p # ps) s = per_elemento amb t b info ps s2
     \<and> map bus_e_tipo (righe s2) = map bus_e_tipo (righe s) @ [bus_e_tipo_atteso b info p]"
proof -
  obtain testo where ts: "tipo_scheda info (int p) = Inr testo"
    using tipo_scheda_totale by blast
  show ?thesis
  proof (cases "primo_utilizzo s (ci_nome info) = Some True")
    case True
    then show ?thesis
      apply (simp add: Let_def genera_valido [OF m] ts)
      apply (intro exI conjI)
       apply (rule refl)
      apply (simp add: bus_e_tipo_def bus_e_tipo_atteso_def ts)
      done
  next
    case False
    then show ?thesis
      apply (simp add: Let_def genera_valido [OF m] ts)
      apply (intro exI conjI)
       apply (rule refl)
      apply (simp add: bus_e_tipo_def bus_e_tipo_atteso_def ts)
      done
  qed
qed

lemma per_elemento_ok:
  assumes "orologio_valido amb"
  shows "\<exists>s'. per_elemento amb t b info ps s = (None, s')
     \<and> map bus_e_tipo (righe s') = map bus_e_tipo (righe s) @ map (bus_e_tipo_atteso b info) ps"
proof (induction ps arbitrary: s)
  case Nil
  show ?case by simp
next
  case (Cons p ps)
  from assms have m: "1 \<le> month (orologio amb (chiamate s))"
    "month (orologio amb (chiamate s)) \<le> 12"
    by (simp_all add: orologio_valido_def)
  from per_elemento_passo [OF m] obtain s2 where
    passo: "per_elemento amb t b info (p # ps) s = per_elemento amb t b info ps s2"
    and r2: "map bus_e_tipo (righe s2) = map bus_e_tipo (righe s) @ [bus_e_tipo_atteso b info p]"
    by blast
  from Cons.IH [of s2] obtain s' where
    "per_elemento amb t b info ps s2 = (None, s')"
    "map bus_e_tipo (righe s') = map bus_e_tipo (righe s2) @ map (bus_e_tipo_atteso b info) ps"
    by blast
  with passo r2 show ?case by simp
qed

lemma per_componente_ok:
  assumes "orologio_valido amb"
  shows "\<exists>s'. per_componente amb t b infos s = (None, s')
     \<and> map bus_e_tipo (righe s') = map bus_e_tipo (righe s) @
         concat (map (\<lambda>info. map (bus_e_tipo_atteso b info) [0..<nat (ci_quantita info)]) infos)"
proof (induction infos arbitrary: s)
  case Nil
  show ?case by simp
next
  case (Cons info infos)
  from per_elemento_ok [OF assms, of t b info "[0..<nat (ci_quantita info)]" s] obtain s1 where
    e: "per_elemento amb t b info [0..<nat (ci_quantita info)] s = (None, s1)"
    and r1: "map bus_e_tipo (righe s1) = map bus_e_tipo (righe s) @
        map (bus_e_tipo_atteso b info) [0..<nat (ci_quantita info)]"
    by blast
  from Cons.IH [of s1] obtain s' where
    "per_componente amb t b infos s1 = (None, s')"
    "map bus_e_tipo (righe s') = map bus_e_tipo (righe s1) @
         concat (map (\<lambda>info. map (bus_e_tipo_atteso b info) [0..<nat (ci_quantita info)]) infos)"
    by blast
  with e r1 show ?case by simp
qed

lemma per_bus_ok:
  assumes "orologio_valido amb"
  shows "\<exists>s'. per_bus amb t b0 infos is s = (None, s')
     \<and> map bus_e_tipo (righe s') = map bus_e_tipo (righe s) @
         concat (map (\<lambda>i. concat (map (\<lambda>info. map (bus_e_tipo_atteso (b0 + int i) info)
                                        [0..<nat (ci_quantita info)]) infos)) is)"
proof (induction "is" arbitrary: s)
  case Nil
  show ?case by simp
next
  case (Cons i "is")
  from per_componente_ok [OF assms, of t "b0 + int i" infos s] obtain s1 where
    e: "per_componente amb t (b0 + int i) infos s = (None, s1)"
    and r1: "map bus_e_tipo (righe s1) = map bus_e_tipo (righe s) @
         concat (map (\<lambda>info. map (bus_e_tipo_atteso (b0 + int i) info)
                       [0..<nat (ci_quantita info)]) infos)"
    by blast
  from Cons.IH [of s1] obtain s' where
    "per_bus amb t b0 infos is s1 = (None, s')"
    "map bus_e_tipo (righe s') = map bus_e_tipo (righe s1) @
         concat (map (\<lambda>i. concat (map (\<lambda>info. map (bus_e_tipo_atteso (b0 + int i) info)
                                        [0..<nat (ci_quantita info)]) infos)) is)"
    by blast
  with e r1 show ?case by simp
qed

lemma componenti_sn_calcolati_campi:
  "componenti_sn_calcolati st comps = Inr infos \<Longrightarrow>
     map ci_nome infos = map r_nome comps
     \<and> map ci_quantita infos = map r_quantita comps
     \<and> map ci_prefisso_tipo_scheda infos = map r_prefisso_tipo_scheda comps
     \<and> map ci_indicizzazione infos = map r_indicizzazione comps
     \<and> map ci_inizio_indicizzazione_prefisso infos = map r_inizio_indicizzazione_prefisso comps"
proof (induction comps arbitrary: infos)
  case Nil
  then show ?case by simp
next
  case (Cons c comps)
  then show ?case
    by (auto simp: calcola_sn_def Let_def split: sum.splits option.splits if_splits)
qed

lemma crea_documento_ok:
  assumes "orologio_valido amb" "bolla_p \<noteq> []" "bolla_v \<noteq> []" "0 < numero_bus" "comps \<noteq> []"
    and "componenti_sn_calcolati (stato (gestore_sn gen)) comps = Inr infos"
  shows "\<exists>rows gen'.
      crea_documento_con_componenti amb bolla_p bolla_v numero_bus comps b0 forn gen
        = (Inr rows, gen')
      \<and> map bus_e_tipo rows =
          concat (map (\<lambda>i. concat (map (\<lambda>info. map (bus_e_tipo_atteso (b0 + int i) info)
                                        [0..<nat (ci_quantita info)]) infos))
                   [0..<nat numero_bus])"
proof -
  let ?s0 = "\<lparr>gsn = gestore_sn gen,
              primo_utilizzo = map_of (map (\<lambda>info. (ci_nome info, True)) infos),
              righe = [], chiamate = 0\<rparr>"
  let ?t = "\<lparr>fornitore = forn, bolla_produzione = bolla_p, bolla_vendita = bolla_v\<rparr>"
  from per_bus_ok [OF assms(1), of ?t b0 infos "[0..<nat numero_bus]" ?s0]
  obtain s' where
    "per_bus amb ?t b0 infos [0..<nat numero_bus] ?s0 = (None, s')"
    "map bus_e_tipo (righe s') = map bus_e_tipo (righe ?s0) @
         concat (map (\<lambda>i. concat (map (\<lambda>info. map (bus_e_tipo_atteso (b0 + int i) info)
                                        [0..<nat (ci_quantita info)]) infos))
                  [0..<nat numero_bus])"
    by blast
  with assms(2-6) show ?thesis
    by (simp add: crea_documento_con_componenti_def)
qed

subsection \<open>The index of a card-type label\<close>

text \<open>
  C4. For the unit at the 0-based position \<open>p\<close> among the units of a component on one
  bus, the number put after the prefix is \<open>p + 1\<close> when the policy is absent, \<open>off + p\<close>
  when it is the integer \<open>off\<close>, and \<open>L ! (p mod length L)\<close> when it is a non-empty list
  \<open>L\<close>; the label is the prefix followed by that number. The position starts again at 0
  on every bus: a run whose arguments pass the entry checks, whose first loop succeeds and
  whose clock reads months of the calendar writes, for every bus in order and every
  component in order, the rows of the positions \<open>0, \<dots>, quantita - 1\<close>, each with the label
  of its position on that bus.
\<close>

theorem index_policy_per_bus:
  "numero_indic Nessuno (int p) = Inr (int p + 1)
   \<and> numero_indic (Intero off) (int p) = Inr (off + int p)
   \<and> (L \<noteq> [] \<longrightarrow> numero_indic (Lista L) (int p) = Inr (L ! (p mod length L)))
   \<and> (\<forall>pre n. ci_prefisso_tipo_scheda info = Some pre \<and> pre \<noteq> [] \<and> ci_indicizzazione info
         \<and> numero_indic (ci_inizio_indicizzazione_prefisso info) (int p) = Inr n
       \<longrightarrow> tipo_scheda info (int p) = Inr (pre @ str_int n))
   \<and> (orologio_valido amb \<and> bolla_p \<noteq> [] \<and> bolla_v \<noteq> [] \<and> 0 < numero_bus \<and> comps \<noteq> []
       \<and> componenti_sn_calcolati (stato (gestore_sn gen)) comps = Inr infos
      \<longrightarrow> map ci_quantita infos = map r_quantita comps
          \<and> map ci_inizio_indicizzazione_prefisso infos = map r_inizio_indicizzazione_prefisso comps
          \<and> (\<exists>rows gen'.
               crea_documento_con_componenti amb bolla_p bolla_v numero_bus comps b0 forn gen
                 = (Inr rows, gen')
               \<and> map bus_e_tipo rows =
                   concat (map (\<lambda>i. concat (map (\<lambda>info. map (bus_e_tipo_atteso (b0 + int i) info)
                                                 [0..<nat (ci_quantita info)]) infos))
                            [0..<nat numero_bus])))"
proof -
  have a: "numero_indic Nessuno (int p) = Inr (int p + 1)"
    and b: "numero_indic (Intero off) (int p) = Inr (off + int p)"
    by (simp_all add: numero_indic_def)
  have c: "L \<noteq> [] \<longrightarrow> numero_indic (Lista L) (int p) = Inr (L ! (p mod length L))"
    by (simp add: numero_indic_lista)
  have d: "\<forall>pre n. ci_prefisso_tipo_scheda info = Some pre \<and> pre \<noteq> [] \<and> ci_indicizzazione info
         \<and> numero_indic (ci_inizio_indicizzazione_prefisso info) (int p) = Inr n
       \<longrightarrow> tipo_scheda info (int p) = Inr (pre @ str_int n)"
    by (simp add: tipo_scheda_def)
  have e: "orologio_valido amb \<and> bolla_p \<noteq> [] \<and> bolla_v \<noteq> [] \<and> 0 < numero_bus \<and> comps \<noteq> []
       \<and> componenti_sn_calcolati (stato (gestore_sn gen)) comps = Inr infos
      \<longrightarrow> map ci_quantita infos = map r_quantita comps
          \<and> map ci_inizio_indicizzazione_prefisso infos = map r_inizio_indicizzazione_prefisso comps
          \<and> (\<exists>rows gen'.
               crea_documento_con_componenti amb bolla_p bolla_v numero_bus comps b0 forn gen
                 = (Inr rows, gen')
               \<and> map bus_e_tipo rows =
                   concat (map (\<lambda>i. concat (map (\<lambda>info. map (bus_e_tipo_atteso (b0 + int i) info)
                                                 [0..<nat (ci_quantita info)]) infos))
                            [0..<nat numero_bus]))"
    using crea_documento_ok [of amb bolla_p bolla_v numero_bus comps gen infos b0 forn]
      componenti_sn_calcolati_campi [of "stato (gestore_sn gen)" comps infos]
    by blast
  from a b c d e show ?thesis by (intro conjI)
qed

theorem index_policy_per_bus_witness:
  "numero_indic Nessuno (int 3) = Inr (int 3 + 1)
   \<and> numero_indic (Intero 7) (int 3) = Inr (7 + int 3)
   \<and> [1, 3, 5] \<noteq> ([] :: int list)
   \<and> numero_indic (Lista [1, 3, 5]) (int 3) = Inr ([1, 3, 5] ! (3 mod length [1, 3, 5 :: int]))
   \<and> orologio_valido amb_giugno \<and> ''P1'' \<noteq> [] \<and> ''V1'' \<noteq> [] \<and> (0::int) < 2
   \<and> [sensor\<lparr>r_quantita := 2\<rparr>] \<noteq> []
   \<and> (\<exists>infos. componenti_sn_calcolati (stato (gestore_sn gen_nuovo)) [sensor\<lparr>r_quantita := 2\<rparr>]
         = Inr infos)
   \<and> (\<exists>rows gen'.
         crea_documento_con_componenti amb_giugno ''P1'' ''V1'' 2 [sensor\<lparr>r_quantita := 2\<rparr>] 5
           ''TECHRAIL'' gen_nuovo = (Inr rows, gen')
         \<and> map bus_e_tipo rows =
             [(''BUS 5'', Inr ''SU1''), (''BUS 5'', Inr ''SU2''),
              (''BUS 6'', Inr ''SU1''), (''BUS 6'', Inr ''SU2'')])"
proof -
  let ?info = "\<lparr>ci_nome = ''SENSOR'', ci_quantita = 2, ci_prossimo_sn = 0,
                ci_prefisso_tipo_scheda = Some ''SU'', ci_code_12nc = Some ''ABC123'',
                ci_indicizzazione = True, ci_inizio_indicizzazione_prefisso = Nessuno\<rparr>"
  have v: "orologio_valido amb_giugno"
    by (simp add: orologio_valido_def amb_giugno_def giugno_2025_def)
  have i: "componenti_sn_calcolati (stato (gestore_sn gen_nuovo)) [sensor\<lparr>r_quantita := 2\<rparr>]
      = Inr [?info]"
    by (simp add: gen_nuovo_def sensor_def calcola_sn_def)
  have r: "concat (map (\<lambda>i. concat (map (\<lambda>info. map (bus_e_tipo_atteso (5 + int i) info)
                                        [0..<nat (ci_quantita info)]) [?info]))
                   [0..<nat 2])
      = [(''BUS 5'', Inr ''SU1''), (''BUS 5'', Inr ''SU2''),
         (''BUS 6'', Inr ''SU1''), (''BUS 6'', Inr ''SU2'')]"
    by code_simp
  from v i r
    index_policy_per_bus
      [where p = 3 and off = 7 and L = "[1, 3, 5]" and amb = amb_giugno and bolla_p = "''P1''"
         and bolla_v = "''V1''" and numero_bus = 2 and comps = "[sensor\<lparr>r_quantita := 2\<rparr>]"
         and gen = gen_nuovo and infos = "[?info]" and ?b0.0 = 5 and forn = "''TECHRAIL''"]
  show ?thesis by simp
qed

text \<open>
  C9. With the empty list as policy the number after the prefix is computed without an
  exception: neither the remainder nor the list access is reached, the result is \<open>p + 1\<close>
  as with an absent policy, and the label is the one of the absent policy.
\<close>

theorem empty_list_policy:
  "numero_indic (Lista []) (int p) = Inr (int p + 1)
   \<and> numero_indic (Lista []) (int p) = numero_indic Nessuno (int p)
   \<and> tipo_scheda (info\<lparr>ci_inizio_indicizzazione_prefisso := Lista []\<rparr>) (int p)
       = tipo_scheda (info\<lparr>ci_inizio_indicizzazione_prefisso := Nessuno\<rparr>) (int p)
   \<and> (\<exists>testo. tipo_scheda (info\<lparr>ci_inizio_indicizzazione_prefisso := Lista []\<rparr>) (int p) = Inr testo)"
proof -
  have n: "numero_indic (Lista []) (int p) = Inr (int p + 1)"
    "numero_indic (Lista []) (int p) = numero_indic Nessuno (int p)"
    by (simp_all add: numero_indic_def)
  have t: "tipo_scheda (info\<lparr>ci_inizio_indicizzazione_prefisso := Lista []\<rparr>) (int p)
       = tipo_scheda (info\<lparr>ci_inizio_indicizzazione_prefisso := Nessuno\<rparr>) (int p)"
    by (simp add: tipo_scheda_def n(2) split: option.split)
  from n t tipo_scheda_totale [of "info\<lparr>ci_inizio_indicizzazione_prefisso := Lista []\<rparr>" p]
  show ?thesis by (intro conjI)
qed

theorem empty_list_policy_witness:
  "numero_indic (Lista []) (int 2) = Inr 3
   \<and> tipo_scheda \<lparr>ci_nome = ''SENSOR'', ci_quantita = 3, ci_prossimo_sn = 0,
                   ci_prefisso_tipo_scheda = Some ''SU'', ci_code_12nc = Some ''ABC123'',
                   ci_indicizzazione = True,
                   ci_inizio_indicizzazione_prefisso = Lista []\<rparr> (int 2)
       = tipo_scheda \<lparr>ci_nome = ''SENSOR'', ci_quantita = 3, ci_prossimo_sn = 0,
                   ci_prefisso_tipo_scheda = Some ''SU'', ci_code_12nc = Some ''ABC123'',
                   ci_indicizzazione = True,
                   ci_inizio_indicizzazione_prefisso = Nessuno\<rparr> (int 2)"
  using empty_list_policy
          [of 2 "\<lparr>ci_nome = ''SENSOR'', ci_quantita = 3, ci_prossimo_sn = 0,
                   ci_prefisso_tipo_scheda = Some ''SU'', ci_code_12nc = Some ''ABC123'',
                   ci_indicizzazione = True,
                   ci_inizio_indicizzazione_prefisso = Nessuno\<rparr>"]
  by simp

subsection \<open>The synchronisation of the registry\<close>

lemma cerca_nome: "cerca n cs = Some c \<Longrightarrow> nome c = n"
  by (induction cs) (auto split: if_splits)

lemma cerca_append: "cerca n prima = None \<Longrightarrow> cerca n (prima @ cs) = cerca n cs"
  by (induction prima) (auto split: if_splits)

text \<open>A replacement that succeeds changes the first entry with the name and nothing else.\<close>

lemma sostituisci_forma:
  "sostituisci n nuovo cs = Some cs' \<Longrightarrow>
     \<exists>prima c dopo. cs = prima @ c # dopo \<and> cs' = prima @ nuovo # dopo
        \<and> nome c = n \<and> cerca n cs = Some c \<and> cerca n prima = None"
proof (induction cs arbitrary: cs')
  case Nil
  then show ?case by simp
next
  case (Cons x cs)
  show ?case
  proof (cases "nome x = n")
    case True
    with Cons.prems have "cs' = nuovo # cs" by simp
    with True show ?thesis by (intro exI [of _ "[]"] exI [of _ x] exI [of _ cs]) simp
  next
    case False
    with Cons.prems obtain cs2 where s2: "sostituisci n nuovo cs = Some cs2" and c': "cs' = x # cs2"
      by auto
    from Cons.IH [OF s2] obtain prima c dopo where
      "cs = prima @ c # dopo" "cs2 = prima @ nuovo # dopo" "nome c = n"
      "cerca n cs = Some c" "cerca n prima = None"
      by blast
    with False c' show ?thesis
      by (intro exI [of _ "x # prima"] exI [of _ c] exI [of _ dopo]) simp
  qed
qed

lemma cerca_sostituisci:
  "cerca n cs = Some c \<Longrightarrow> \<exists>cs'. sostituisci n nuovo cs = Some cs'"
  by (induction cs) (auto split: if_splits)

text \<open>
  The body of the last loop, for a name that has a state and is in the registry: the
  first entry with the name gets the new \<^verbatim>\<open>sn_iniziale\<close> and the run's
  \<^verbatim>\<open>inizio_indicizzazione_prefisso\<close>, and the registry is saved.
\<close>

lemma sincronizza_uno_trovato:
  assumes v: "st (r_nome r) = Some voce" and t: "cerca (r_nome r) (componenti gc) = Some c"
  shows "\<exists>prima dopo.
      componenti gc = prima @ c # dopo \<and> cerca (r_nome r) prima = None
      \<and> sincronizza_uno io st r gc =
          salva_componenti io (gc\<lparr>componenti := prima @
            c\<lparr>sn_iniziale := Some (ultimo_sn voce + 1),
              inizio_indicizzazione_prefisso := r_inizio_indicizzazione_prefisso r\<rparr> # dopo\<rparr>)"
proof -
  let ?nuovo = "\<lparr>nome = nome c, code_12nc = code_12nc c,
                 sn_iniziale = Some (ultimo_sn voce + 1),
                 prefisso_tipo_scheda = prefisso_tipo_scheda c,
                 indicizzazione = indicizzazione c,
                 inizio_indicizzazione_prefisso = r_inizio_indicizzazione_prefisso r\<rparr>"
  from cerca_sostituisci [OF t] obtain cs' where
    s: "sostituisci (r_nome r) ?nuovo (componenti gc) = Some cs'" by blast
  from sostituisci_forma [OF s] obtain prima c2 dopo where
    f: "componenti gc = prima @ c2 # dopo" "cs' = prima @ ?nuovo # dopo"
      "cerca (r_nome r) (componenti gc) = Some c2" "cerca (r_nome r) prima = None"
    by blast
  from f(3) t have c: "c2 = c" by simp
  have n: "?nuovo = c\<lparr>sn_iniziale := Some (ultimo_sn voce + 1),
            inizio_indicizzazione_prefisso := r_inizio_indicizzazione_prefisso r\<rparr>"
    by simp
  have "sincronizza_uno io st r gc = salva_componenti io (gc\<lparr>componenti := cs'\<rparr>)"
    using v t s
    by (simp add: sincronizza_uno_def cerca_componente_per_nome_def modifica_componente_def)
  with f(1,2,4) c n show ?thesis by auto
qed

lemma sincronizza_uno_cerca:
  assumes "st (r_nome r) = Some voce" and "cerca (r_nome r) (componenti gc) = Some c"
  shows "cerca (r_nome r) (componenti (sincronizza_uno io st r gc)) =
      Some (c\<lparr>sn_iniziale := Some (ultimo_sn voce + 1),
              inizio_indicizzazione_prefisso := r_inizio_indicizzazione_prefisso r\<rparr>)"
proof -
  from sincronizza_uno_trovato [where st = st and r = r and io = io, OF assms] obtain prima dopo where
    "cerca (r_nome r) prima = None"
    "sincronizza_uno io st r gc =
          salva_componenti io (gc\<lparr>componenti := prima @
            c\<lparr>sn_iniziale := Some (ultimo_sn voce + 1),
              inizio_indicizzazione_prefisso := r_inizio_indicizzazione_prefisso r\<rparr> # dopo\<rparr>)"
    by blast
  with cerca_nome [OF assms(2)] show ?thesis
    by (simp add: salva_componenti_def cerca_append)
qed

lemma sincronizza_uno_forma:
  "sincronizza_uno io st r gc = gc \<or>
   (\<exists>voce prima c dopo.
      st (r_nome r) = Some voce \<and> componenti gc = prima @ c # dopo \<and> nome c = r_nome r
      \<and> cerca (r_nome r) prima = None
      \<and> sincronizza_uno io st r gc =
          salva_componenti io (gc\<lparr>componenti := prima @
            c\<lparr>sn_iniziale := Some (ultimo_sn voce + 1),
              inizio_indicizzazione_prefisso := r_inizio_indicizzazione_prefisso r\<rparr> # dopo\<rparr>))"
proof (cases "st (r_nome r)")
  case None
  then show ?thesis by (simp add: sincronizza_uno_def)
next
  case (Some voce)
  show ?thesis
  proof (cases "cerca (r_nome r) (componenti gc)")
    case None
    with Some show ?thesis by (simp add: sincronizza_uno_def cerca_componente_per_nome_def)
  next
    case c: (Some c)
    from sincronizza_uno_trovato [where st = st and r = r and io = io, OF Some c] cerca_nome [OF c] Some
    show ?thesis by blast
  qed
qed

lemma sincronizza_uno_campi:
  "map nome (componenti (sincronizza_uno io st r gc)) = map nome (componenti gc)
   \<and> map code_12nc (componenti (sincronizza_uno io st r gc)) = map code_12nc (componenti gc)
   \<and> map prefisso_tipo_scheda (componenti (sincronizza_uno io st r gc))
       = map prefisso_tipo_scheda (componenti gc)
   \<and> map indicizzazione (componenti (sincronizza_uno io st r gc))
       = map indicizzazione (componenti gc)"
  using sincronizza_uno_forma [of io st r gc]
  by (auto simp: salva_componenti_def)

lemma sincronizza_campi:
  "map nome (componenti (sincronizza disco st comps gc)) = map nome (componenti gc)
   \<and> map code_12nc (componenti (sincronizza disco st comps gc)) = map code_12nc (componenti gc)
   \<and> map prefisso_tipo_scheda (componenti (sincronizza disco st comps gc))
       = map prefisso_tipo_scheda (componenti gc)
   \<and> map indicizzazione (componenti (sincronizza disco st comps gc))
       = map indicizzazione (componenti gc)"
proof (induction comps arbitrary: disco gc)
  case Nil
  show ?case by simp
next
  case (Cons r comps)
  from Cons.IH [of "\<lambda>i. disco (Suc i)" "sincronizza_uno (disco 0) st r gc"]
    sincronizza_uno_campi [of "disco 0" st r gc]
  show ?case by simp
qed

subsection \<open>The scenario of the specification\<close>

lemma testi_scenario:
  "testo_sn (lettere ! 5) 25 0 = ''F25 00000''"
  "testo_sn (lettere ! 5) 25 1 = ''F25 00001''"
  "str_int 5 = ''5''" "str_int 6 = ''6''"
  "tipo_scheda info_sensor 0 = Inr ''SU1''"
  by code_simp+

lemma scenario_cicli:
  assumes g: "\<forall>k. month (orologio amb k) = 6 \<and> year (orologio amb k) = 2025"
    and n: "stato g0 ''SENSOR'' = None"
  shows "\<exists>s'. per_bus amb t 5 [info_sensor] [0..<nat 2]
           \<lparr>gsn = g0, primo_utilizzo = map_of (map (\<lambda>info. (ci_nome info, True)) [info_sensor]),
            righe = [], chiamate = 0\<rparr> = (None, s')
       \<and> righe s' =
          [\<lparr>col_fornitore = fornitore t, col_bolla_produzione = bolla_produzione t,
            col_bolla_vendita = bolla_vendita t, col_descrizione = ''SENSOR'',
            col_code_12nc = Some ''ABC123'', col_sn = ''F25 00000'', col_bus = ''BUS 5'',
            col_tipo_scheda = ''SU1'', col_sn_fornitore = []\<rparr>,
           \<lparr>col_fornitore = fornitore t, col_bolla_produzione = bolla_produzione t,
            col_bolla_vendita = bolla_vendita t, col_descrizione = ''SENSOR'',
            col_code_12nc = Some ''ABC123'', col_sn = ''F25 00001'', col_bus = ''BUS 6'',
            col_tipo_scheda = ''SU1'', col_sn_fornitore = []\<rparr>]
       \<and> (\<exists>voce. stato (gsn s') ''SENSOR'' = Some voce \<and> ultimo_sn voce = 1)"
proof -
  have u: "[0..<2::nat] = [0, 1]" "[0..<1::nat] = [0]" by (simp_all add: upt_rec)
  have m: "\<And>k. 1 \<le> month (orologio amb k)" "\<And>k. month (orologio amb k) \<le> 12"
    using g by simp_all
  have q: "ci_quantita info_sensor = 1" "ci_nome info_sensor = ''SENSOR''" 
    "ci_code_12nc info_sensor = Some ''ABC123''" "ci_prossimo_sn info_sensor = 0"
    by (simp_all add: info_sensor_def)
  show ?thesis
    by (simp add: u q Let_def genera_valido [OF m] g numero_emesso_def n testi_scenario)
qed

text \<open>
  C2. A run with 2 buses from bus 5 and the single component "SENSOR" (one per bus, part
  code "ABC123", no \<^verbatim>\<open>sn_iniziale\<close>, no index policy, prefix "SU", indexing on), for a name
  that has no state yet and is in the registry, with both delivery notes given and a clock
  in June 2025, writes exactly two rows in this order: bus 5 with serial \<^verbatim>\<open>F25 00000\<close> and
  label \<^verbatim>\<open>SU1\<close>, then bus 6 with serial \<^verbatim>\<open>F25 00001\<close> and label \<^verbatim>\<open>SU1\<close>. After the run the
  registry entry of "SENSOR" has \<^verbatim>\<open>sn_iniziale\<close> 2.
\<close>

theorem scenario_sensor:
  assumes "bolla_p \<noteq> []" and "bolla_v \<noteq> []"
    and "\<forall>k. month (orologio amb k) = 6 \<and> year (orologio amb k) = 2025"
    and "stato (gestore_sn gen) ''SENSOR'' = None"
    and "gestione_componenti gen = Some gc"
    and "cerca_componente_per_nome ''SENSOR'' gc = Some c"
  shows "\<exists>gen' gc' c'.
      crea_documento_con_componenti amb bolla_p bolla_v 2 [sensor] 5 forn gen =
        (Inr [\<lparr>col_fornitore = forn, col_bolla_produzione = bolla_p,
                col_bolla_vendita = bolla_v, col_descrizione = ''SENSOR'',
                col_code_12nc = Some ''ABC123'', col_sn = ''F25 00000'', col_bus = ''BUS 5'',
                col_tipo_scheda = ''SU1'', col_sn_fornitore = []\<rparr>,
              \<lparr>col_fornitore = forn, col_bolla_produzione = bolla_p,
                col_bolla_vendita = bolla_v, col_descrizione = ''SENSOR'',
                col_code_12nc = Some ''ABC123'', col_sn = ''F25 00001'', col_bus = ''BUS 6'',
                col_tipo_scheda = ''SU1'', col_sn_fornitore = []\<rparr>], gen')
      \<and> gestione_componenti gen' = Some gc'
      \<and> cerca_componente_per_nome ''SENSOR'' gc' = Some c'
      \<and> sn_iniziale c' = Some 2
      \<and> get_ultimo_sn ''SENSOR'' (gestore_sn gen') = 1"
proof -
  let ?t = "\<lparr>fornitore = forn, bolla_produzione = bolla_p, bolla_vendita = bolla_v\<rparr>"
  have i: "componenti_sn_calcolati (stato (gestore_sn gen)) [sensor] = Inr [info_sensor]"
    using assms(4) by (simp add: sensor_def info_sensor_def calcola_sn_def)
  from scenario_cicli [OF assms(3,4), of ?t] obtain s' voce where
    pb: "per_bus amb ?t 5 [info_sensor] [0..<nat 2]
           \<lparr>gsn = gestore_sn gen,
            primo_utilizzo = map_of (map (\<lambda>info. (ci_nome info, True)) [info_sensor]),
            righe = [], chiamate = 0\<rparr> = (None, s')"
    and r: "righe s' =
          [\<lparr>col_fornitore = forn, col_bolla_produzione = bolla_p,
            col_bolla_vendita = bolla_v, col_descrizione = ''SENSOR'',
            col_code_12nc = Some ''ABC123'', col_sn = ''F25 00000'', col_bus = ''BUS 5'',
            col_tipo_scheda = ''SU1'', col_sn_fornitore = []\<rparr>,
           \<lparr>col_fornitore = forn, col_bolla_produzione = bolla_p,
            col_bolla_vendita = bolla_v, col_descrizione = ''SENSOR'',
            col_code_12nc = Some ''ABC123'', col_sn = ''F25 00001'', col_bus = ''BUS 6'',
            col_tipo_scheda = ''SU1'', col_sn_fornitore = []\<rparr>]"
    and v: "stato (gsn s') ''SENSOR'' = Some voce" "ultimo_sn voce = 1"
    by auto
  have n: "r_nome sensor = ''SENSOR''" by (simp add: sensor_def)
  from assms(6) have t: "cerca (r_nome sensor) (componenti gc) = Some c"
    by (simp add: cerca_componente_per_nome_def n)
  from v(1) have v': "stato (gsn s') (r_nome sensor) = Some voce" by (simp add: n)
  have ce: "cerca ''SENSOR''
      (componenti (sincronizza_uno (disco_componenti amb 0) (stato (gsn s')) sensor gc)) =
      Some (c\<lparr>sn_iniziale := Some (ultimo_sn voce + 1),
              inizio_indicizzazione_prefisso := r_inizio_indicizzazione_prefisso sensor\<rparr>)"
    using sincronizza_uno_cerca [where st = "stato (gsn s')" and r = sensor, OF v' t] n by simp
  show ?thesis
    using assms(1,2,5) i pb r v ce
    by (simp add: crea_documento_con_componenti_def cerca_componente_per_nome_def
        get_ultimo_sn_def)
qed

theorem scenario_sensor_witness:
  "''P1'' \<noteq> [] \<and> ''V1'' \<noteq> []
   \<and> (\<forall>k. month (orologio amb_giugno k) = 6 \<and> year (orologio amb_giugno k) = 2025)
   \<and> stato (gestore_sn gen_nuovo) ''SENSOR'' = None
   \<and> gestione_componenti gen_nuovo = Some registro_sensor
   \<and> (\<exists>c. cerca_componente_per_nome ''SENSOR'' registro_sensor = Some c)
   \<and> (\<exists>gen' gc' c'.
      crea_documento_con_componenti amb_giugno ''P1'' ''V1'' 2 [sensor] 5 ''TECHRAIL'' gen_nuovo =
        (Inr [\<lparr>col_fornitore = ''TECHRAIL'', col_bolla_produzione = ''P1'',
                col_bolla_vendita = ''V1'', col_descrizione = ''SENSOR'',
                col_code_12nc = Some ''ABC123'', col_sn = ''F25 00000'', col_bus = ''BUS 5'',
                col_tipo_scheda = ''SU1'', col_sn_fornitore = []\<rparr>,
              \<lparr>col_fornitore = ''TECHRAIL'', col_bolla_produzione = ''P1'',
                col_bolla_vendita = ''V1'', col_descrizione = ''SENSOR'',
                col_code_12nc = Some ''ABC123'', col_sn = ''F25 00001'', col_bus = ''BUS 6'',
                col_tipo_scheda = ''SU1'', col_sn_fornitore = []\<rparr>], gen')
      \<and> gestione_componenti gen' = Some gc'
      \<and> cerca_componente_per_nome ''SENSOR'' gc' = Some c'
      \<and> sn_iniziale c' = Some 2
      \<and> get_ultimo_sn ''SENSOR'' (gestore_sn gen') = 1)"
proof -
  have h: "\<forall>k. month (orologio amb_giugno k) = 6 \<and> year (orologio amb_giugno k) = 2025"
    "stato (gestore_sn gen_nuovo) ''SENSOR'' = None"
    "gestione_componenti gen_nuovo = Some registro_sensor"
    by (simp_all add: amb_giugno_def giugno_2025_def gen_nuovo_def)
  have c: "cerca_componente_per_nome ''SENSOR'' registro_sensor = Some (hd (componenti registro_sensor))"
    by (simp add: cerca_componente_per_nome_def registro_sensor_def)
  from scenario_sensor [of "''P1''" "''V1''" amb_giugno gen_nuovo registro_sensor
      "hd (componenti registro_sensor)" "''TECHRAIL''", OF _ _ h c] h c
  show ?thesis by simp
qed

subsection \<open>What the synchronisation keeps\<close>

lemma crea_documento_registro:
  assumes "crea_documento_con_componenti amb bolla_p bolla_v numero_bus comps b0 forn gen = (res, gen')"
    and "gestione_componenti gen = Some gc"
  shows "\<exists>gc'. gestione_componenti gen' = Some gc'
     \<and> (gc' = gc \<or> (\<exists>st. gc' = sincronizza (disco_componenti amb) st comps gc))"
  using assms
  by (auto simp: crea_documento_con_componenti_def
      split: if_splits sum.splits prod.splits option.splits)

text \<open>
  C10. The write-back of one component either leaves the registry as it is or rewrites the
  first entry with the component's name, changing only \<^verbatim>\<open>sn_iniziale\<close> (to
  \<^verbatim>\<open>ultimo_sn + 1\<close>) and \<^verbatim>\<open>inizio_indicizzazione_prefisso\<close> (to the value of the run's
  request, absent or not). The whole write-back, and so every run, leaves the names, part
  codes, prefixes and indexing flags of the registry as they were stored: the part code of
  the request is not written to the registry.
\<close>

theorem write_back_frame:
  "(sincronizza_uno io st r gc = gc \<or>
     (\<exists>voce prima c dopo.
        st (r_nome r) = Some voce \<and> componenti gc = prima @ c # dopo \<and> nome c = r_nome r
        \<and> cerca (r_nome r) prima = None
        \<and> sincronizza_uno io st r gc =
            salva_componenti io (gc\<lparr>componenti := prima @
              c\<lparr>sn_iniziale := Some (ultimo_sn voce + 1),
                inizio_indicizzazione_prefisso := r_inizio_indicizzazione_prefisso r\<rparr> # dopo\<rparr>)))
   \<and> map nome (componenti (sincronizza disco st comps gc)) = map nome (componenti gc)
   \<and> map code_12nc (componenti (sincronizza disco st comps gc)) = map code_12nc (componenti gc)
   \<and> map prefisso_tipo_scheda (componenti (sincronizza disco st comps gc))
       = map prefisso_tipo_scheda (componenti gc)
   \<and> map indicizzazione (componenti (sincronizza disco st comps gc))
       = map indicizzazione (componenti gc)
   \<and> (crea_documento_con_componenti amb bolla_p bolla_v numero_bus comps b0 forn gen = (res, gen')
        \<and> gestione_componenti gen = Some gc
      \<longrightarrow> (\<exists>gc'. gestione_componenti gen' = Some gc'
            \<and> map nome (componenti gc') = map nome (componenti gc)
            \<and> map code_12nc (componenti gc') = map code_12nc (componenti gc)
            \<and> map prefisso_tipo_scheda (componenti gc') = map prefisso_tipo_scheda (componenti gc)
            \<and> map indicizzazione (componenti gc') = map indicizzazione (componenti gc)))"
proof -
  have run: "crea_documento_con_componenti amb bolla_p bolla_v numero_bus comps b0 forn gen = (res, gen')
        \<and> gestione_componenti gen = Some gc
      \<longrightarrow> (\<exists>gc'. gestione_componenti gen' = Some gc'
            \<and> map nome (componenti gc') = map nome (componenti gc)
            \<and> map code_12nc (componenti gc') = map code_12nc (componenti gc)
            \<and> map prefisso_tipo_scheda (componenti gc') = map prefisso_tipo_scheda (componenti gc)
            \<and> map indicizzazione (componenti gc') = map indicizzazione (componenti gc))"
  proof
    assume a: "crea_documento_con_componenti amb bolla_p bolla_v numero_bus comps b0 forn gen = (res, gen')
        \<and> gestione_componenti gen = Some gc"
    with crea_documento_registro [of amb bolla_p bolla_v numero_bus comps b0 forn gen res gen' gc]
    obtain gc' where g: "gestione_componenti gen' = Some gc'"
      and "gc' = gc \<or> (\<exists>st. gc' = sincronizza (disco_componenti amb) st comps gc)"
      by blast
    then have "map nome (componenti gc') = map nome (componenti gc)
            \<and> map code_12nc (componenti gc') = map code_12nc (componenti gc)
            \<and> map prefisso_tipo_scheda (componenti gc') = map prefisso_tipo_scheda (componenti gc)
            \<and> map indicizzazione (componenti gc') = map indicizzazione (componenti gc)"
      using sincronizza_campi by auto
    with g show "\<exists>gc'. gestione_componenti gen' = Some gc'
            \<and> map nome (componenti gc') = map nome (componenti gc)
            \<and> map code_12nc (componenti gc') = map code_12nc (componenti gc)
            \<and> map prefisso_tipo_scheda (componenti gc') = map prefisso_tipo_scheda (componenti gc)
            \<and> map indicizzazione (componenti gc') = map indicizzazione (componenti gc)"
      by blast
  qed
  from sincronizza_uno_forma [of io st r gc] sincronizza_campi [of disco st comps gc] run
  show ?thesis by (intro conjI) blast+
qed

theorem write_back_frame_witness:
  "gestione_componenti gen_nuovo = Some registro_sensor
   \<and> (\<exists>gc'. gestione_componenti
          (snd (crea_documento_con_componenti amb_giugno ''P1'' ''V1'' 2
                  [sensor\<lparr>r_code_12nc := Some ''XYZ999''\<rparr>] 5 ''TECHRAIL'' gen_nuovo)) = Some gc'
        \<and> map nome (componenti gc') = [''SENSOR'']
        \<and> map code_12nc (componenti gc') = [''ABC123'']
        \<and> map prefisso_tipo_scheda (componenti gc') = [Some ''SU'']
        \<and> map indicizzazione (componenti gc') = [True])
   \<and> componenti (sincronizza_uno ScritturaOk
        [''SENSOR'' \<mapsto> \<lparr>ultimo_sn = 1, data_ultimo_utilizzo = ''2025-06-03T09:30:00'',
                         sn_code_12nc = None\<rparr>]
        (sensor\<lparr>r_code_12nc := Some ''XYZ999'',
                r_inizio_indicizzazione_prefisso := Intero 4\<rparr>) registro_sensor)
       = [\<lparr>nome = ''SENSOR'', code_12nc = ''ABC123'', sn_iniziale = Some 2,
           prefisso_tipo_scheda = Some ''SU'', indicizzazione = True,
           inizio_indicizzazione_prefisso = Intero 4\<rparr>]"
proof -
  let ?run = "crea_documento_con_componenti amb_giugno ''P1'' ''V1'' 2
                  [sensor\<lparr>r_code_12nc := Some ''XYZ999''\<rparr>] 5 ''TECHRAIL'' gen_nuovo"
  have g: "gestione_componenti gen_nuovo = Some registro_sensor"
    by (simp add: gen_nuovo_def)
  have c: "componenti registro_sensor =
      [\<lparr>nome = ''SENSOR'', code_12nc = ''ABC123'', sn_iniziale = None,
        prefisso_tipo_scheda = Some ''SU'', indicizzazione = True,
        inizio_indicizzazione_prefisso = Nessuno\<rparr>]"
    by (simp add: registro_sensor_def)
  have u: "componenti (sincronizza_uno ScritturaOk
        [''SENSOR'' \<mapsto> \<lparr>ultimo_sn = 1, data_ultimo_utilizzo = ''2025-06-03T09:30:00'',
                         sn_code_12nc = None\<rparr>]
        (sensor\<lparr>r_code_12nc := Some ''XYZ999'',
                r_inizio_indicizzazione_prefisso := Intero 4\<rparr>) registro_sensor)
       = [\<lparr>nome = ''SENSOR'', code_12nc = ''ABC123'', sn_iniziale = Some 2,
           prefisso_tipo_scheda = Some ''SU'', indicizzazione = True,
           inizio_indicizzazione_prefisso = Intero 4\<rparr>]"
    by (simp add: sincronizza_uno_def sensor_def c cerca_componente_per_nome_def
        modifica_componente_def salva_componenti_def Let_def)
  from write_back_frame
         [where gen = gen_nuovo and gc = registro_sensor and res = "fst ?run"
            and gen' = "snd ?run" and amb = amb_giugno and bolla_p = "''P1''"
            and bolla_v = "''V1''" and numero_bus = 2
            and comps = "[sensor\<lparr>r_code_12nc := Some ''XYZ999''\<rparr>]" and ?b0.0 = 5
            and forn = "''TECHRAIL''"] g
  have "\<exists>gc'. gestione_componenti (snd ?run) = Some gc'
        \<and> map nome (componenti gc') = map nome (componenti registro_sensor)
        \<and> map code_12nc (componenti gc') = map code_12nc (componenti registro_sensor)
        \<and> map prefisso_tipo_scheda (componenti gc')
            = map prefisso_tipo_scheda (componenti registro_sensor)
        \<and> map indicizzazione (componenti gc') = map indicizzazione (componenti registro_sensor)"
    by simp
  with g u show ?thesis by (simp add: c)
qed

subsection \<open>A missing part code\<close>

lemma calcola_sn_errore:
  "calcola_sn st c = Inl e \<Longrightarrow>
     e = ValueError (Code12ncObbligatorio (r_nome c)) \<and> st (r_nome c) = None
     \<and> \<not> vero (r_code_12nc c)"
  by (auto simp: calcola_sn_def Let_def split: option.splits if_splits)

lemma calcola_sn_manca:
  "st (r_nome c) = None \<Longrightarrow> \<not> vero (r_code_12nc c) \<Longrightarrow>
     calcola_sn st c = Inl (ValueError (Code12ncObbligatorio (r_nome c)))"
  by (simp add: calcola_sn_def Let_def)

text \<open>The first loop stops at the first component that has neither a state nor a code.\<close>

lemma componenti_sn_calcolati_manca:
  assumes "c \<in> set comps" "st (r_nome c) = None" "\<not> vero (r_code_12nc c)"
  shows "\<exists>c'. c' \<in> set comps \<and> st (r_nome c') = None \<and> \<not> vero (r_code_12nc c')
     \<and> componenti_sn_calcolati st comps = Inl (ValueError (Code12ncObbligatorio (r_nome c')))"
  using assms
proof (induction comps)
  case Nil
  then show ?case by simp
next
  case (Cons x comps)
  show ?case
  proof (cases "calcola_sn st x")
    case (Inl e)
    from calcola_sn_errore [OF Inl] Inl show ?thesis
      by (intro exI [of _ x]) simp
  next
    case (Inr info)
    with calcola_sn_manca [of st x] Cons.prems have "c \<noteq> x" by auto
    with Cons.prems have "c \<in> set comps" by simp
    from Cons.IH [OF this Cons.prems(2,3)] obtain c' where
      "c' \<in> set comps" "st (r_nome c') = None" "\<not> vero (r_code_12nc c')"
      "componenti_sn_calcolati st comps = Inl (ValueError (Code12ncObbligatorio (r_nome c')))"
      by blast
    with Inr show ?thesis by (intro exI [of _ c']) simp
  qed
qed

text \<open>
  C8. A run whose list holds a component that has no state in the serial-number manager
  and no part code (none, or the empty text) raises \<^verbatim>\<open>ValueError\<close> and leaves the generator
  exactly as it was: the state dictionary and its file, the registry and its file. When
  the arguments pass the three entry checks, which come first, the error is the one of the
  missing part code, for the first such component of the list.
\<close>

theorem missing_code_aborts_before_mutation:
  assumes "c \<in> set comps" "stato (gestore_sn gen) (r_nome c) = None" "\<not> vero (r_code_12nc c)"
  shows "\<exists>m. crea_documento_con_componenti amb bolla_p bolla_v numero_bus comps b0 forn gen
          = (Inl (ValueError m), gen)
       \<and> (bolla_p \<noteq> [] \<and> bolla_v \<noteq> [] \<and> 0 < numero_bus \<longrightarrow>
            (\<exists>c'. c' \<in> set comps \<and> stato (gestore_sn gen) (r_nome c') = None
                \<and> \<not> vero (r_code_12nc c') \<and> m = Code12ncObbligatorio (r_nome c')))"
proof -
  from componenti_sn_calcolati_manca [where st = "stato (gestore_sn gen)", OF assms] obtain c' where
    c': "c' \<in> set comps" "stato (gestore_sn gen) (r_nome c') = None" "\<not> vero (r_code_12nc c')"
    and e: "componenti_sn_calcolati (stato (gestore_sn gen)) comps
        = Inl (ValueError (Code12ncObbligatorio (r_nome c')))"
    by blast
  from assms(1) have ne: "comps \<noteq> []" by auto
  show ?thesis
  proof (cases "bolla_p \<noteq> [] \<and> bolla_v \<noteq> [] \<and> 0 < numero_bus")
    case True
    with ne e have "crea_documento_con_componenti amb bolla_p bolla_v numero_bus comps b0 forn gen
          = (Inl (ValueError (Code12ncObbligatorio (r_nome c'))), gen)"
      by (simp add: crea_documento_con_componenti_def)
    with c' show ?thesis by blast
  next
    case False
    then show ?thesis
      by (auto simp: crea_documento_con_componenti_def)
  qed
qed

theorem missing_code_aborts_before_mutation_witness:
  "sensor\<lparr>r_code_12nc := None\<rparr> \<in> set [sensor\<lparr>r_code_12nc := None\<rparr>]
   \<and> stato (gestore_sn gen_nuovo) (r_nome (sensor\<lparr>r_code_12nc := None\<rparr>)) = None
   \<and> \<not> vero (r_code_12nc (sensor\<lparr>r_code_12nc := None\<rparr>))
   \<and> ''P1'' \<noteq> [] \<and> ''V1'' \<noteq> [] \<and> (0::int) < 2
   \<and> crea_documento_con_componenti amb_giugno ''P1'' ''V1'' 2 [sensor\<lparr>r_code_12nc := None\<rparr>] 5
        ''TECHRAIL'' gen_nuovo
       = (Inl (ValueError (Code12ncObbligatorio ''SENSOR'')), gen_nuovo)"
proof -
  have h: "sensor\<lparr>r_code_12nc := None\<rparr> \<in> set [sensor\<lparr>r_code_12nc := None\<rparr>]"
    "stato (gestore_sn gen_nuovo) (r_nome (sensor\<lparr>r_code_12nc := None\<rparr>)) = None"
    "\<not> vero (r_code_12nc (sensor\<lparr>r_code_12nc := None\<rparr>))"
    by (simp_all add: gen_nuovo_def)
  have n: "r_nome sensor = ''SENSOR''" by (simp add: sensor_def)
  from missing_code_aborts_before_mutation
         [OF h, of amb_giugno "''P1''" "''V1''" 2 5 "''TECHRAIL''"] h n
  show ?thesis by auto
qed

subsection \<open>A write of the state file that fails\<close>

lemma testo_42: "testo_sn (lettere ! 5) 25 42 = ''F25 00042''"
  by code_simp

text \<open>
  C5, as stated, fails: with a state file that cannot be opened the call still returns
  the serial \<^verbatim>\<open>F25 00042\<close>; the dictionary in memory holds 42 and the file still holds 41.
\<close>

theorem write_failure_not_fatal_counterexample:
  "genera_serial_number giugno_2025 ErroreOpen ''SENSOR'' None None gsn_sensor =
     (Inr ''F25 00042'',
      \<lparr>stato = [''SENSOR'' \<mapsto> \<lparr>ultimo_sn = 42,
                     data_ultimo_utilizzo = ''2025-06-03T09:30:00'',
                     sn_code_12nc = None\<rparr>],
       file_stato = Json [''SENSOR'' \<mapsto> \<lparr>ultimo_sn = 41,
                     data_ultimo_utilizzo = ''2025-05-30T08:00:00'',
                     sn_code_12nc = Some ''ABC123''\<rparr>]\<rparr>)"
proof -
  have m: "1 \<le> month giugno_2025" "month giugno_2025 \<le> 12" by (simp_all add: giugno_2025_def)
  show ?thesis
    by (simp add: genera_valido numero_emesso_def gsn_sensor_def giugno_2025_def
        testo_42 scrivi_def)
qed

text \<open>
  C5, amended. A failure to write the state file is not fatal for the call:
  \<^verbatim>\<open>_salva_stato\<close> catches the exception and prints it. Whatever happens to the write, the
  call returns what it returns when the write succeeds and leaves the same dictionary in
  memory; at a date whose month is 1 to 12 it returns a serial and \<^verbatim>\<open>ultimo_sn\<close> is the
  number issued. Only the file differs: the new dictionary when the write succeeds, the
  old content when \<^verbatim>\<open>open\<close> fails, a truncated file when the dump fails.
\<close>

theorem write_failure_swallowed:
  "fst (genera_serial_number ora io d ov code g)
     = fst (genera_serial_number ora ScritturaOk d ov code g)
   \<and> stato (snd (genera_serial_number ora io d ov code g))
     = stato (snd (genera_serial_number ora ScritturaOk d ov code g))
   \<and> (1 \<le> month ora \<and> month ora \<le> 12 \<longrightarrow>
        (\<exists>sn. fst (genera_serial_number ora io d ov code g) = Inr sn)
        \<and> get_ultimo_sn d (snd (genera_serial_number ora io d ov code g)) = numero_emesso d ov g
        \<and> file_stato (snd (genera_serial_number ora ScritturaOk d ov code g))
            = Json (stato (snd (genera_serial_number ora ScritturaOk d ov code g)))
        \<and> file_stato (snd (genera_serial_number ora ErroreOpen d ov code g)) = file_stato g
        \<and> file_stato (snd (genera_serial_number ora ErroreDump d ov code g)) = Troncato)"
proof -
  have a: "fst (genera_serial_number ora io d ov code g)
     = fst (genera_serial_number ora ScritturaOk d ov code g)"
    by (simp add: genera_serial_number_def Let_def split: sum.splits)
  have b: "stato (snd (genera_serial_number ora io d ov code g))
     = stato (snd (genera_serial_number ora ScritturaOk d ov code g))"
    by (simp add: genera_serial_number_def Let_def salva_stato_def split: sum.splits)
  have c: "1 \<le> month ora \<and> month ora \<le> 12 \<longrightarrow>
        (\<exists>sn. fst (genera_serial_number ora io d ov code g) = Inr sn)
        \<and> get_ultimo_sn d (snd (genera_serial_number ora io d ov code g)) = numero_emesso d ov g
        \<and> file_stato (snd (genera_serial_number ora ScritturaOk d ov code g))
            = Json (stato (snd (genera_serial_number ora ScritturaOk d ov code g)))
        \<and> file_stato (snd (genera_serial_number ora ErroreOpen d ov code g)) = file_stato g
        \<and> file_stato (snd (genera_serial_number ora ErroreDump d ov code g)) = Troncato"
    by (simp add: genera_valido get_ultimo_sn_def scrivi_def)
  from a b c show ?thesis by (intro conjI)
qed

theorem write_failure_swallowed_witness:
  "(1::int) \<le> month giugno_2025 \<and> month giugno_2025 \<le> 12
   \<and> fst (genera_serial_number giugno_2025 ErroreDump ''SENSOR'' None None gsn_sensor)
       = fst (genera_serial_number giugno_2025 ScritturaOk ''SENSOR'' None None gsn_sensor)
   \<and> (\<exists>sn. fst (genera_serial_number giugno_2025 ErroreDump ''SENSOR'' None None gsn_sensor)
         = Inr sn)
   \<and> get_ultimo_sn ''SENSOR''
        (snd (genera_serial_number giugno_2025 ErroreDump ''SENSOR'' None None gsn_sensor)) = 42
   \<and> file_stato (snd (genera_serial_number giugno_2025 ErroreDump ''SENSOR'' None None gsn_sensor))
       = Troncato"
proof -
  have m: "1 \<le> month giugno_2025 \<and> month giugno_2025 \<le> 12" by (simp add: giugno_2025_def)
  have n: "numero_emesso ''SENSOR'' None gsn_sensor = 42"
    by (simp add: numero_emesso_def gsn_sensor_def)
  note w = write_failure_swallowed [of giugno_2025 ErroreDump "''SENSOR''" None None gsn_sensor]
  from w have a: "fst (genera_serial_number giugno_2025 ErroreDump ''SENSOR'' None None gsn_sensor)
       = fst (genera_serial_number giugno_2025 ScritturaOk ''SENSOR'' None None gsn_sensor)"
    by (rule conjunct1)
  from w m have c: "\<exists>sn. fst (genera_serial_number giugno_2025 ErroreDump ''SENSOR'' None None
      gsn_sensor) = Inr sn"
    and e: "get_ultimo_sn ''SENSOR''
        (snd (genera_serial_number giugno_2025 ErroreDump ''SENSOR'' None None gsn_sensor))
        = numero_emesso ''SENSOR'' None gsn_sensor"
    and f: "file_stato (snd (genera_serial_number giugno_2025 ErroreDump ''SENSOR'' None None
      gsn_sensor)) = Troncato"
    by blast+
  from e n have "get_ultimo_sn ''SENSOR''
        (snd (genera_serial_number giugno_2025 ErroreDump ''SENSOR'' None None gsn_sensor)) = 42"
    by (rule trans)
  with m a c f show ?thesis by (intro conjI) blast+
qed

subsection \<open>The part code kept with the state\<close>

text \<open>
  C6 against the code. The state of "SENSOR" holds the part code "ABC123"; a call of
  \<^verbatim>\<open>genera_serial_number\<close> without a code returns \<^verbatim>\<open>F25 00042\<close> and stores \<^verbatim>\<open>None\<close> as the
  part code, since the whole entry is rebuilt from the arguments. The run of the scenario,
  which passes the code in its first call only, ends with \<^verbatim>\<open>None\<close> stored as well.
\<close>

theorem code_erased_without_argument:
  "map_option sn_code_12nc (stato gsn_sensor ''SENSOR'') = Some (Some ''ABC123'')
   \<and> fst (genera_serial_number giugno_2025 ScritturaOk ''SENSOR'' None None gsn_sensor)
       = Inr ''F25 00042''
   \<and> map_option sn_code_12nc
        (stato (snd (genera_serial_number giugno_2025 ScritturaOk ''SENSOR'' None None gsn_sensor))
           ''SENSOR'') = Some None
   \<and> map_option sn_code_12nc
        (stato (gestore_sn (snd (crea_documento_con_componenti amb_giugno ''P1'' ''V1'' 2 [sensor] 5
                                   ''TECHRAIL'' gen_nuovo))) ''SENSOR'') = Some None"
proof -
  have m: "1 \<le> month giugno_2025" "month giugno_2025 \<le> 12" by (simp_all add: giugno_2025_def)
  have a: "map_option sn_code_12nc (stato gsn_sensor ''SENSOR'') = Some (Some ''ABC123'')"
    by (simp add: gsn_sensor_def)
  have b: "fst (genera_serial_number giugno_2025 ScritturaOk ''SENSOR'' None None gsn_sensor)
       = Inr ''F25 00042''"
    by (simp add: genera_valido numero_emesso_def gsn_sensor_def giugno_2025_def testo_42)
  have c: "map_option sn_code_12nc
        (stato (snd (genera_serial_number giugno_2025 ScritturaOk ''SENSOR'' None None gsn_sensor))
           ''SENSOR'') = Some None"
    by (simp add: genera_valido [OF m])
  have u: "[0..<2::nat] = [0, 1]" "[0..<1::nat] = [0]" by (simp_all add: upt_rec)
  have v: "\<And>k. 1 \<le> month (orologio amb_giugno k)" "\<And>k. month (orologio amb_giugno k) \<le> 12"
    by (simp_all add: amb_giugno_def giugno_2025_def)
  have d: "map_option sn_code_12nc
        (stato (gestore_sn (snd (crea_documento_con_componenti amb_giugno ''P1'' ''V1'' 2 [sensor] 5
                                   ''TECHRAIL'' gen_nuovo))) ''SENSOR'') = Some None"
    by (simp add: crea_documento_con_componenti_def gen_nuovo_def sensor_def calcola_sn_def
        u Let_def genera_valido [OF v] numero_emesso_def tipo_scheda_def numero_indic_def)
  from a b c d show ?thesis by (intro conjI)
qed

subsection \<open>Names in the registry\<close>

text \<open>
  C7 against the code. In a registry with the distinct names "A" and "B",
  \<^verbatim>\<open>aggiungi_componente\<close> refuses a second "B" and leaves the registry as it is, but
  \<^verbatim>\<open>modifica_componente\<close> renames "A" to "B" and returns \<^verbatim>\<open>True\<close>: two entries are then
  named "B".
\<close>

theorem rename_makes_duplicate:
  "distinct (ottieni_nomi_componenti registro_ab)
   \<and> aggiungi_componente ScritturaOk ''B'' ''111'' None None True Nessuno registro_ab
       = (False, registro_ab)
   \<and> fst (modifica_componente ScritturaOk ''A'' ''B'' ''111'' None None True Nessuno registro_ab)
       = True
   \<and> ottieni_nomi_componenti
        (snd (modifica_componente ScritturaOk ''A'' ''B'' ''111'' None None True Nessuno registro_ab))
       = [''B'', ''B'']
   \<and> \<not> distinct (ottieni_nomi_componenti
        (snd (modifica_componente ScritturaOk ''A'' ''B'' ''111'' None None True Nessuno
                registro_ab)))"
  by (simp add: registro_ab_def ottieni_nomi_componenti_def aggiungi_componente_def
      cerca_componente_per_nome_def modifica_componente_def salva_componenti_def)

end
